theory Spec2Isabelle
  imports Main "HOL-Library.Sublist"
begin

section \<open>JavaScript values and strings\<close>

text \<open>
  The tracker is JavaScript. A value that the code inspects with \<^verbatim>\<open>typeof\<close> or
  \<^verbatim>\<open>===\<close> (the \<^verbatim>\<open>cost\<close> of an item, the argument of \<^verbatim>\<open>formatCurrency\<close>) is a
  \<open>jsval\<close>. The type \<open>'n\<close> of the numbers is a parameter. \<^verbatim>\<open>formatCurrency\<close> does no
  arithmetic, and is modelled for every type of numbers. \<^verbatim>\<open>calculateMetrics\<close> and the CSV
  export add and print numbers, and there a number is an \<open>int\<close>: the amounts of the tracker are
  whole naira, and as long as the amounts and their sums stay below \<open>2 ^ 53\<close> the arithmetic
  of doubles is the arithmetic of \<open>int\<close>. Fractions, NaN, the infinities and the rounding of
  larger sums are outside that part of the development. \<open>JObject\<close> stands for any object
  (arrays and functions included).

  A string is a \<open>string\<close> holding the UTF-8 bytes of the text. The code only compares
  strings, searches ASCII substrings, replaces the ASCII double quote and concatenates, and
  these agree on UTF-8 bytes and on UTF-16 code units.
\<close>

datatype 'n jsval = JNum 'n | JStr string | JBool bool | JUndefined | JNull | JObject

fun typeof :: "'n jsval \<Rightarrow> string" where
  "typeof (JNum n) = ''number''"
| "typeof (JStr s) = ''string''"
| "typeof (JBool b) = ''boolean''"
| "typeof JUndefined = ''undefined''"
| "typeof JNull = ''object''"
| "typeof JObject = ''object''"

text \<open>The number inside a value; read only under a \<^verbatim>\<open>typeof x === 'number'\<close> guard.\<close>

fun number_of :: "int jsval \<Rightarrow> int" where
  "number_of (JNum n) = n"
| "number_of v = 0"

text \<open>The naira sign U+20A6, as its three UTF-8 bytes.\<close>

definition naira :: string where
  "naira = [CHR 0xE2, CHR 0x82, CHR 0xA6]"

text \<open>\<^verbatim>\<open>Array.prototype.join\<close> on an array of strings.\<close>

fun join :: "string \<Rightarrow> string list \<Rightarrow> string" where
  "join sep [] = []"
| "join sep [x] = x"
| "join sep (x # y # ys) = x @ sep @ join sep (y # ys)"

text \<open>\<^verbatim>\<open>String.prototype.includes\<close>: the pattern occurs as a contiguous substring.\<close>

fun starts_with :: "string \<Rightarrow> string \<Rightarrow> bool" where
  "starts_with s [] = True"
| "starts_with [] (p # ps) = False"
| "starts_with (c # cs) (p # ps) = (c = p \<and> starts_with cs ps)"

fun includes_str :: "string \<Rightarrow> string \<Rightarrow> bool" where
  "includes_str [] p = (p = [])"
| "includes_str (c # cs) p = (starts_with (c # cs) p \<or> includes_str cs p)"

subsection \<open>Numbers as text\<close>

text \<open>
  \<^verbatim>\<open>Number.prototype.toString\<close> on an integer below \<open>10 ^ 21\<close> gives its decimal digits, with
  a minus sign when negative.
\<close>

fun digits :: "nat \<Rightarrow> string" where
  "digits n = (if n < 10 then [''0123456789'' ! n]
               else digits (n div 10) @ [''0123456789'' ! (n mod 10)])"

declare digits.simps [simp del]

definition Number_toString :: "int \<Rightarrow> string" where
  "Number_toString n = (if n < 0 then ''-'' @ digits (nat (- n)) else digits (nat n))"



section \<open>Line items\<close>

text \<open>
  One object of \<^verbatim>\<open>initialData\<close>. The fields \<^verbatim>\<open>id\<close> and \<^verbatim>\<open>done\<close> carry a prime
  because the plain names are taken. The code reads \<^verbatim>\<open>excludeFromSum\<close> and \<^verbatim>\<open>done\<close>
  only for their truthiness, so they are booleans (an absent field is falsy). The text fields
  are strings; \<^verbatim>\<open>cost\<close> is a number or the string \<^verbatim>\<open>'N/A'\<close> in the data, and the code
  tests its type, so it is a \<open>jsval\<close>.
\<close>

record item =
  id' :: string
  type :: string
  description :: string
  event :: string
  cost :: "int jsval"
  costType :: string
  status :: string
  excludeFromSum :: bool
  done' :: bool

section \<open>The helpers: formatCurrency\<close>


section \<open>The helpers: calculateMetrics\<close>

subsection \<open>A plain object used as a dictionary\<close>

text \<open>
  \<^verbatim>\<open>const costsByType = {}\<close> is an ordinary object, and the code uses it as a dictionary
  from phase names to buckets. Three things the language does with such an object matter:

  \<^item> its own properties are kept in creation order, and a property that exists keeps its
    place when it is written again: the object is an association list with distinct keys;
  \<^item> \<^verbatim>\<open>costsByType[phase]\<close> also finds what the object inherits from
    \<^verbatim>\<open>Object.prototype\<close>: the built-in methods and the accessor \<^verbatim>\<open>__proto__\<close>;
  \<^item> \<^verbatim>\<open>Object.entries\<close> lists the keys that are array indices first, in ascending
    numeric order, and then the other keys in creation order.
\<close>

text \<open>
  A bucket is \<^verbatim>\<open>{ total, items }\<close> and a grouping is \<^verbatim>\<open>{ phase, total }\<close>; the field
  they share is declared once, with a prime because the plain name is taken.
\<close>

record summed =
  total' :: int

record bucket = summed +
  items :: "item list"

record grouping = summed +
  phase :: string

type_synonym dict = "(string \<times> bucket) list"

text \<open>The names every ordinary object inherits from \<^verbatim>\<open>Object.prototype\<close>.\<close>

definition Object_prototype_names :: "string list" where
  "Object_prototype_names =
     [''constructor'', ''__defineGetter__'', ''__defineSetter__'', ''hasOwnProperty'',
      ''__lookupGetter__'', ''__lookupSetter__'', ''isPrototypeOf'', ''propertyIsEnumerable'',
      ''toString'', ''valueOf'', ''__proto__'', ''toLocaleString'']"

text \<open>
  The built-in objects are the only state outside a call that \<^verbatim>\<open>calculateMetrics\<close> can
  reach: \<^verbatim>\<open>costsByType[phase].total += item.cost\<close> writes to one of them when \<^verbatim>\<open>phase\<close>
  is an inherited name. The state of the built-ins is the set \<open>g\<close> of inherited names whose
  object has been given a property \<^verbatim>\<open>total\<close> that way. Its value is then NaN (undefined
  plus a number, or NaN plus a number). For the name \<^verbatim>\<open>__proto__\<close> the object is
  \<^verbatim>\<open>Object.prototype\<close> itself, and from then on every object inherits \<^verbatim>\<open>total\<close>.
\<close>

type_synonym builtins = "string set"

datatype looked = Own bucket | Builtin string | Inherited_NaN | Undefined

definition get_prop :: "builtins \<Rightarrow> dict \<Rightarrow> string \<Rightarrow> looked" where
  "get_prop g obj k =
     (case map_of obj k of
        Some b \<Rightarrow> Own b
      | None \<Rightarrow>
          if k \<in> set Object_prototype_names then Builtin k
          else if k = ''total'' \<and> ''__proto__'' \<in> g then Inherited_NaN
          else Undefined)"

text \<open>Objects are truthy; NaN and undefined are falsy.\<close>

fun truthy :: "looked \<Rightarrow> bool" where
  "truthy (Own b) = True"
| "truthy (Builtin k) = True"
| "truthy Inherited_NaN = False"
| "truthy Undefined = False"

text \<open>Writing an own property: in place when the key exists, at the end otherwise.\<close>

fun put :: "dict \<Rightarrow> string \<Rightarrow> bucket \<Rightarrow> dict" where
  "put [] k v = [(k, v)]"
| "put ((k', v') # rest) k v =
     (if k' = k then (k, v) # rest else (k', v') # put rest k v)"

text \<open>
  An array index is the canonical decimal string of an integer from 0 to \<open>2 ^ 32 - 2\<close>.
\<close>

definition is_digit :: "char \<Rightarrow> bool" where
  "is_digit c = (c \<in> set ''0123456789'')"

definition decimal :: "string \<Rightarrow> nat" where
  "decimal k = foldl (\<lambda>acc c. 10 * acc + (of_char c - 48)) 0 k"

definition is_array_index :: "string \<Rightarrow> bool" where
  "is_array_index k =
     (k \<noteq> [] \<and> list_all is_digit k \<and> digits (decimal k) = k \<and> decimal k \<le> 4294967294)"

text \<open>
  The own keys in the order in which the language lists them, from the keys in creation
  order; \<^verbatim>\<open>Object.entries\<close> pairs each with its value.
\<close>

definition OwnPropertyKeys :: "string list \<Rightarrow> string list" where
  "OwnPropertyKeys ks =
     sort_key decimal (filter is_array_index ks) @ filter (\<lambda>k. \<not> is_array_index k) ks"

definition Object_entries :: "dict \<Rightarrow> dict" where
  "Object_entries obj =
     List.map_filter (\<lambda>k. map_option (Pair k) (map_of obj k)) (OwnPropertyKeys (map fst obj))"

subsection \<open>Array.prototype.sort\<close>

text \<open>
  \<^verbatim>\<open>sort\<close> with a comparator is stable: an element goes before another when the comparator
  is negative, and elements that compare equal keep their order. Insertion from the right,
  each element placed before the first one it does not have to follow, is such a sort.
\<close>

fun insert_by :: "('a \<Rightarrow> 'a \<Rightarrow> int) \<Rightarrow> 'a \<Rightarrow> 'a list \<Rightarrow> 'a list" where
  "insert_by cmp x [] = [x]"
| "insert_by cmp x (y # ys) =
     (if cmp x y \<le> 0 then x # y # ys else y # insert_by cmp x ys)"

definition Array_sort :: "('a \<Rightarrow> 'a \<Rightarrow> int) \<Rightarrow> 'a list \<Rightarrow> 'a list" where
  "Array_sort cmp xs = foldr (insert_by cmp) xs []"

subsection \<open>The function\<close>

text \<open>
  \<^verbatim>\<open>
  let totalConfirmedBudget = 0;
  let unpricedItems = [];
  const costsByType = {};
  \<close>
  The two results and the dictionary are the locals that the callback of \<^verbatim>\<open>forEach\<close>
  updates. The returned object has the fields \<^verbatim>\<open>totalConfirmedBudget\<close> and
  \<^verbatim>\<open>unpricedItems\<close> of the same names and \<^verbatim>\<open>top3CostGroupings\<close>.
\<close>

datatype error = TypeError

record totals =
  totalConfirmedBudget :: int
  unpricedItems :: "item list"

record locals = totals +
  costsByType :: dict

record metrics = totals +
  top3CostGroupings :: "grouping list"

text \<open>\<^verbatim>\<open>typeof item.cost === 'number' && !item.excludeFromSum\<close>, which the callback tests twice.\<close>

definition counted :: "item \<Rightarrow> bool" where
  "counted item = (typeof (cost item) = ''number'' \<and> \<not> excludeFromSum item)"

text \<open>
  \<^verbatim>\<open>
  if (typeof item.cost === 'number' && !item.excludeFromSum) {
      totalConfirmedBudget += item.cost;
  }
  if (item.status === 'Unpriced') {
      unpricedItems.push(item);
  }
  const phase = item.event;
  if (!costsByType[phase]) {
      costsByType[phase] = { total: 0, items: [] };
  }
  if (typeof item.cost === 'number' && !item.excludeFromSum) {
      costsByType[phase].total += item.cost;
  }
  costsByType[phase].items.push(item);
  \<close>
  When \<^verbatim>\<open>costsByType[phase]\<close> is an inherited built-in, no bucket is created, the sum is
  written to the built-in, and \<^verbatim>\<open>.items\<close> of the built-in is undefined: \<^verbatim>\<open>.push\<close> on it
  throws a TypeError. (The last statement would throw on NaN or undefined as well; after the
  creation step the lookup finds neither.)
\<close>

definition callback :: "item \<Rightarrow> builtins \<Rightarrow> locals \<Rightarrow> (error + locals) \<times> builtins" where
  "callback item g s =
     (let s1 = (if counted item
                then s\<lparr>totalConfirmedBudget := totalConfirmedBudget s + number_of (cost item)\<rparr>
                else s);
          s2 = (if status item = ''Unpriced''
                then s1\<lparr>unpricedItems := unpricedItems s1 @ [item]\<rparr>
                else s1);
          ph = event item;
          c3 = (if \<not> truthy (get_prop g (costsByType s2) ph)
                then put (costsByType s2) ph \<lparr>total' = 0, items = []\<rparr>
                else costsByType s2)
      in case get_prop g c3 ph of
           Own b \<Rightarrow>
             (let b1 = (if counted item then b\<lparr>total' := total' b + number_of (cost item)\<rparr>
                        else b);
                  b2 = b1\<lparr>items := items b1 @ [item]\<rparr>
              in (Inr (s2\<lparr>costsByType := put c3 ph b2\<rparr>), g))
         | Builtin k \<Rightarrow> (Inl TypeError, if counted item then insert k g else g)
         | Inherited_NaN \<Rightarrow> (Inl TypeError, g)
         | Undefined \<Rightarrow> (Inl TypeError, g))"

text \<open>\<^verbatim>\<open>data.forEach(item => ...)\<close>: the callback on each item in turn, until one throws.\<close>

fun forEach :: "item list \<Rightarrow> builtins \<Rightarrow> locals \<Rightarrow> (error + locals) \<times> builtins" where
  "forEach [] g s = (Inr s, g)"
| "forEach (item # rest) g s =
     (case callback item g s of
        (Inl e, g') \<Rightarrow> (Inl e, g')
      | (Inr s', g') \<Rightarrow> forEach rest g' s')"

text \<open>
  \<^verbatim>\<open>
  const sortedCosts = Object.entries(costsByType)
      .filter(([key, value]) => !key.includes('Summary') && !key.includes('Budget') && value.total > 0)
      .sort(([, a], [, b]) => b.total - a.total)
      .slice(0, 3);
  const top3CostGroupings = sortedCosts.map(([phase, data]) => ({ phase, total: data.total }));
  \<close>
\<close>

definition sortedCosts :: "dict \<Rightarrow> dict" where
  "sortedCosts c =
     take 3
       (Array_sort (\<lambda>(ka, a) (kb, b). total' b - total' a)
          (filter (\<lambda>(key, val). \<not> includes_str key ''Summary'' \<and> \<not> includes_str key ''Budget''
                                  \<and> total' val > 0)
             (Object_entries c)))"

definition calculateMetrics :: "item list \<Rightarrow> builtins \<Rightarrow> (error + metrics) \<times> builtins" where
  "calculateMetrics data g =
     (case forEach data g \<lparr>totalConfirmedBudget = 0, unpricedItems = [], costsByType = []\<rparr> of
        (Inl e, g') \<Rightarrow> (Inl e, g')
      | (Inr s, g') \<Rightarrow>
          (Inr \<lparr>totalConfirmedBudget = totalConfirmedBudget s,
                unpricedItems = unpricedItems s,
                top3CostGroupings =
                  map (\<lambda>(p, d). \<lparr>total' = total' d, phase = p\<rparr>) (sortedCosts (costsByType s))\<rparr>,
           g'))"

subsection \<open>Order of first occurrence\<close>

text \<open>The distinct elements of a list, each at the place of its first occurrence.\<close>

fun first_occurrences :: "'a list \<Rightarrow> 'a list" where
  "first_occurrences [] = []"
| "first_occurrences (x # xs) = x # filter (\<lambda>y. y \<noteq> x) (first_occurrences xs)"

section \<open>The application component\<close>

text \<open>
  \<^verbatim>\<open>App\<close> holds two pieces of React state: the item list \<^verbatim>\<open>data\<close> and the filter
  selection \<^verbatim>\<open>filters = { type, cost }\<close>. A handler is a function from the state to the
  next state, or to the text it produces.
\<close>

record filters =
  filter_type :: string
  filter_cost :: string

record app =
  data :: "item list"
  filters :: filters

subsection \<open>filteredData\<close>

text \<open>
  \<^verbatim>\<open>
  data.filter(item => {
      if (item.costType === 'Summary' || item.costType === 'Budget') {
          return filters.type === 'All' && filters.cost === 'All';
      }
      const matchesType = filters.type === 'All' || item.type === filters.type;
      const matchesCostStatus = filters.cost === 'All' || item.status === filters.cost;
      return matchesType && matchesCostStatus;
  })
  \<close>
\<close>

definition visible :: "filters \<Rightarrow> item \<Rightarrow> bool" where
  "visible f item =
     (if costType item = ''Summary'' \<or> costType item = ''Budget''
      then filter_type f = ''All'' \<and> filter_cost f = ''All''
      else
        (let matchesType = (filter_type f = ''All'' \<or> type item = filter_type f);
             matchesCostStatus = (filter_cost f = ''All'' \<or> status item = filter_cost f)
         in matchesType \<and> matchesCostStatus))"

definition filteredData :: "app \<Rightarrow> item list" where
  "filteredData st = filter (visible (filters st)) (data st)"

subsection \<open>handleToggleDone\<close>

text \<open>
  \<^verbatim>\<open>
  setData(prevData =>
      prevData.map(item =>
          item.id === id ? { ...item, done: isChecked } : item))
  \<close>
  \<^verbatim>\<open>map\<close> builds a new array and the spread builds a new object; the previous array and
  its items are not written to.
\<close>

definition handleToggleDone :: "string \<Rightarrow> bool \<Rightarrow> app \<Rightarrow> app" where
  "handleToggleDone ident isChecked st =
     st\<lparr>data := map (\<lambda>item. if id' item = ident then item\<lparr>done' := isChecked\<rparr> else item)
                    (data st)\<rparr>"

subsection \<open>handleExportToCSV\<close>

text \<open>
  The handler builds \<^verbatim>\<open>csvContent\<close> from \<^verbatim>\<open>data\<close> and hands it to the clipboard; the
  model is the text it builds.
\<close>

definition dquote :: string where
  "dquote = [CHR 0x22]"

definition newline :: string where
  "newline = [CHR 0x0A]"

definition headers :: "string list" where
  "headers = [''Completed'', ''ID'', ''Description'', ''Event Phase'', ''Type'', ''Cost Type'',
              ''Projected Cost ('' @ naira @ '')'', ''Notes'']"

text \<open>\<^verbatim>\<open>s.replace(/"/g, '""')\<close>\<close>

definition replace_dquotes :: "string \<Rightarrow> string" where
  "replace_dquotes s = concat (map (\<lambda>c. if c = CHR 0x22 then dquote @ dquote else [c]) s)"

definition costStr :: "item \<Rightarrow> string" where
  "costStr item =
     (if cost item = JStr ''N/A'' then ''N/A''
      else if typeof (cost item) = ''number'' then Number_toString (number_of (cost item))
      else '''')"

definition csvFields :: "item \<Rightarrow> string list" where
  "csvFields item =
     [if done' item then ''YES'' else ''NO'',
      id' item,
      replace_dquotes (description item),
      event item,
      type item,
      costType item,
      costStr item,
      if status item = ''Unpriced'' then ''QUOTE NEEDED''
      else if costType item = ''Summary'' then ''SUMMARY LINE'' else '''']"

definition csvRow :: "item \<Rightarrow> string" where
  "csvRow item = join '','' (map (\<lambda>field. dquote @ field @ dquote) (csvFields item))"

definition csvRows :: "app \<Rightarrow> string list" where
  "csvRows st = map csvRow (data st)"

definition handleExportToCSV :: "app \<Rightarrow> string" where
  "handleExportToCSV st = join newline (join '','' headers # csvRows st)"

section \<open>Example data\<close>

text \<open>The first and the last item of \<^verbatim>\<open>initialData\<close>, and a constructor for test items.\<close>

definition item_1_1 :: item where
  "item_1_1 =
     \<lparr>id' = ''1.1'', type = ''Procurement'', description = ''Daily Stand-Up Setup'',
      event = ''JAVINEER Setup'', cost = JNum 8000, costType = ''CAPEX'', status = ''Priced'',
      excludeFromSum = False, done' = False\<rparr>"

definition item_7_8 :: item where
  "item_7_8 =
     \<lparr>id' = ''7.8'', type = ''Procurement'',
      description = ''GitHub Repository Setup (Digital platform)'',
      event = ''Py-Kathon Tech'', cost = JStr ''N/A'', costType = ''OPEX'', status = ''Unpriced'',
      excludeFromSum = False, done' = False\<rparr>"

definition line_item :: "string \<Rightarrow> int jsval \<Rightarrow> bool \<Rightarrow> string \<Rightarrow> item" where
  "line_item ev c ex st =
     \<lparr>id' = ''0'', type = ''Procurement'', description = ''a line'', event = ev, cost = c,
      costType = ''CAPEX'', status = st, excludeFromSum = ex, done' = False\<rparr>"

definition no_filters :: filters where
  "no_filters = \<lparr>filter_type = ''All'', filter_cost = ''All''\<rparr>"

section \<open>formatCurrency\<close>



section \<open>The table filter\<close>

text \<open>
  Claim C8. An item whose \<^verbatim>\<open>costType\<close> is \<^verbatim>\<open>'Summary'\<close> or \<^verbatim>\<open>'Budget'\<close> is visible
  if and only if both filters are \<^verbatim>\<open>'All'\<close>. Any other item is visible if and only if the
  type filter is \<^verbatim>\<open>'All'\<close> or equals the item's type, and the cost filter is \<^verbatim>\<open>'All'\<close> or
  equals the item's status. The table shows the visible items of \<^verbatim>\<open>data\<close>, in order.
\<close>

theorem visible_iff:
  "(costType item = ''Summary'' \<or> costType item = ''Budget'' \<longrightarrow>
      (visible f item \<longleftrightarrow> filter_type f = ''All'' \<and> filter_cost f = ''All''))
   \<and> (costType item \<noteq> ''Summary'' \<and> costType item \<noteq> ''Budget'' \<longrightarrow>
      (visible f item \<longleftrightarrow>
         (filter_type f = ''All'' \<or> type item = filter_type f)
         \<and> (filter_cost f = ''All'' \<or> status item = filter_cost f)))
   \<and> filteredData st = filter (visible (filters st)) (data st)"
  by (simp add: visible_def filteredData_def)

theorem visible_iff_witness:
  "visible \<lparr>filter_type = ''All'', filter_cost = ''Priced''\<rparr> item_1_1
   \<and> \<not> visible \<lparr>filter_type = ''All'', filter_cost = ''Priced''\<rparr>
         (item_1_1\<lparr>costType := ''Summary''\<rparr>)
   \<and> visible no_filters (item_1_1\<lparr>costType := ''Budget''\<rparr>)"
  using visible_iff [of item_1_1 "\<lparr>filter_type = ''All'', filter_cost = ''Priced''\<rparr>"]
    visible_iff [of "item_1_1\<lparr>costType := ''Summary''\<rparr>"
      "\<lparr>filter_type = ''All'', filter_cost = ''Priced''\<rparr>"]
    visible_iff [of "item_1_1\<lparr>costType := ''Budget''\<rparr>" no_filters]
  by (simp add: item_1_1_def no_filters_def)

section \<open>The done checkbox\<close>

text \<open>
  Claim C9. \<^verbatim>\<open>handleToggleDone\<close> gives a list of the same length and order. At each
  position, an item whose id is the given one has its \<^verbatim>\<open>done\<close> flag set to the given
  value and every other field unchanged; an item with another id is unchanged. The filters
  are unchanged.
\<close>

theorem handleToggleDone_frame:
  "length (data (handleToggleDone i c st)) = length (data st)
   \<and> filters (handleToggleDone i c st) = filters st
   \<and> (\<forall>n < length (data st).
        (id' (data st ! n) = i \<longrightarrow>
           data (handleToggleDone i c st) ! n = (data st ! n)\<lparr>done' := c\<rparr>)
        \<and> (id' (data st ! n) \<noteq> i \<longrightarrow>
           data (handleToggleDone i c st) ! n = data st ! n)
        \<and> id' (data (handleToggleDone i c st) ! n) = id' (data st ! n)
        \<and> type (data (handleToggleDone i c st) ! n) = type (data st ! n)
        \<and> description (data (handleToggleDone i c st) ! n) = description (data st ! n)
        \<and> event (data (handleToggleDone i c st) ! n) = event (data st ! n)
        \<and> cost (data (handleToggleDone i c st) ! n) = cost (data st ! n)
        \<and> costType (data (handleToggleDone i c st) ! n) = costType (data st ! n)
        \<and> status (data (handleToggleDone i c st) ! n) = status (data st ! n)
        \<and> excludeFromSum (data (handleToggleDone i c st) ! n) = excludeFromSum (data st ! n)
        \<and> done' (data (handleToggleDone i c st) ! n) =
            (if id' (data st ! n) = i then c else done' (data st ! n)))"
  by (simp add: handleToggleDone_def)

theorem handleToggleDone_frame_witness:
  "data (handleToggleDone ''1.1'' True \<lparr>data = [item_1_1, item_7_8], filters = no_filters\<rparr>) ! 0
     = item_1_1\<lparr>done' := True\<rparr>
   \<and> data (handleToggleDone ''1.1'' True \<lparr>data = [item_1_1, item_7_8], filters = no_filters\<rparr>) ! 1
     = item_7_8"
proof -
  let ?st = "\<lparr>data = [item_1_1, item_7_8], filters = no_filters\<rparr>"
  have len: "length (data ?st) = 2" by simp
  have i0: "id' (data ?st ! 0) = ''1.1''" by (simp add: item_1_1_def)
  have i1: "id' (data ?st ! 1) \<noteq> ''1.1''" by (simp add: item_7_8_def)
  from handleToggleDone_frame [of "''1.1''" True ?st] i0 i1 len
  show ?thesis by simp
qed

section \<open>The CSV export\<close>

text \<open>
  Claim C7, as the code has it. The export is the header line followed by one row for each
  item of \<^verbatim>\<open>data\<close> (all of them, whatever the filters), joined by newlines. The header
  line is the eight column names joined by commas, not quoted, and the seventh name is
  \<^verbatim>\<open>Projected Cost (<naira>)\<close>. A row is eight fields, each wrapped in double quotes, joined
  by commas: \<^verbatim>\<open>YES\<close> or \<^verbatim>\<open>NO\<close>, the id, the description with every double quote
  doubled, the event, the type, the cost type, the cost (\<^verbatim>\<open>N/A\<close>, the digits of a number,
  or nothing), and the note: \<^verbatim>\<open>QUOTE NEEDED\<close> when the status is \<^verbatim>\<open>Unpriced\<close>, otherwise
  \<^verbatim>\<open>SUMMARY LINE\<close> when the cost type is \<^verbatim>\<open>Summary\<close>, otherwise nothing.
\<close>

theorem handleExportToCSV_layout:
  "handleExportToCSV st =
     join newline
       ((''Completed,ID,Description,Event Phase,Type,Cost Type,Projected Cost (''
         @ naira @ ''),Notes'')
        # map csvRow (data st))
   \<and> csvRow item =
       dquote @ (if done' item then ''YES'' else ''NO'') @ dquote @ '',''
       @ dquote @ id' item @ dquote @ '',''
       @ dquote @ replace_dquotes (description item) @ dquote @ '',''
       @ dquote @ event item @ dquote @ '',''
       @ dquote @ type item @ dquote @ '',''
       @ dquote @ costType item @ dquote @ '',''
       @ dquote @ (if cost item = JStr ''N/A'' then ''N/A''
                   else case cost item of JNum n \<Rightarrow> Number_toString n | _ \<Rightarrow> '''')
       @ dquote @ '',''
       @ dquote @ (if status item = ''Unpriced'' then ''QUOTE NEEDED''
                   else if costType item = ''Summary'' then ''SUMMARY LINE'' else '''')
       @ dquote
   \<and> replace_dquotes [] = []
   \<and> replace_dquotes (c # s) =
       (if c = CHR 0x22 then [CHR 0x22, CHR 0x22] else [c]) @ replace_dquotes s"
proof -
  have h: "join '','' headers =
      ''Completed,ID,Description,Event Phase,Type,Cost Type,Projected Cost ('' @ naira @ ''),Notes''"
    by (simp add: headers_def)
  have a: "handleExportToCSV st =
     join newline
       ((''Completed,ID,Description,Event Phase,Type,Cost Type,Projected Cost (''
         @ naira @ ''),Notes'')
        # map csvRow (data st))"
    unfolding handleExportToCSV_def csvRows_def h ..
  have cs: "costStr item =
      (if cost item = JStr ''N/A'' then ''N/A''
       else case cost item of JNum n \<Rightarrow> Number_toString n | _ \<Rightarrow> '''')"
    by (cases "cost item") (simp_all add: costStr_def)
  have b: "csvRow item =
       dquote @ (if done' item then ''YES'' else ''NO'') @ dquote @ '',''
       @ dquote @ id' item @ dquote @ '',''
       @ dquote @ replace_dquotes (description item) @ dquote @ '',''
       @ dquote @ event item @ dquote @ '',''
       @ dquote @ type item @ dquote @ '',''
       @ dquote @ costType item @ dquote @ '',''
       @ dquote @ (if cost item = JStr ''N/A'' then ''N/A''
                   else case cost item of JNum n \<Rightarrow> Number_toString n | _ \<Rightarrow> '''')
       @ dquote @ '',''
       @ dquote @ (if status item = ''Unpriced'' then ''QUOTE NEEDED''
                   else if costType item = ''Summary'' then ''SUMMARY LINE'' else '''')
       @ dquote"
    unfolding csvRow_def csvFields_def cs by simp
  have c: "replace_dquotes [] = []" by (simp add: replace_dquotes_def)
  have d: "replace_dquotes (c # s) =
      (if c = CHR 0x22 then [CHR 0x22, CHR 0x22] else [c]) @ replace_dquotes s"
    by (simp add: replace_dquotes_def dquote_def)
  from a b c d show ?thesis by blast
qed

text \<open>
  The claim as written names the seventh column \<^verbatim>\<open>Projected Cost\<close> and has every field
  quoted. The export of the empty list is the header line alone: its names are not quoted and
  the seventh is not \<^verbatim>\<open>Projected Cost\<close>.
\<close>

theorem handleExportToCSV_header_counterexample:
  "handleExportToCSV \<lparr>data = [], filters = no_filters\<rparr> =
     ''Completed,ID,Description,Event Phase,Type,Cost Type,Projected Cost ('' @ naira @ ''),Notes''
   \<and> headers ! 6 \<noteq> ''Projected Cost''"
  by (simp add: handleExportToCSV_def csvRows_def headers_def naira_def)

theorem handleExportToCSV_layout_witness:
  "csvRow item_7_8 =
     dquote @ ''NO'' @ dquote @ '','' @ dquote @ ''7.8'' @ dquote @ '',''
     @ dquote @ ''GitHub Repository Setup (Digital platform)'' @ dquote @ '',''
     @ dquote @ ''Py-Kathon Tech'' @ dquote @ '','' @ dquote @ ''Procurement'' @ dquote @ '',''
     @ dquote @ ''OPEX'' @ dquote @ '','' @ dquote @ ''N/A'' @ dquote @ '',''
     @ dquote @ ''QUOTE NEEDED'' @ dquote"
proof -
  have r: "replace_dquotes ''GitHub Repository Setup (Digital platform)''
      = ''GitHub Repository Setup (Digital platform)''"
    by (simp add: replace_dquotes_def)
  from handleExportToCSV_layout [of _ item_7_8] show ?thesis
    by (simp add: item_7_8_def r)
qed

text \<open>
  Claim C10. For an item whose status is \<^verbatim>\<open>Unpriced\<close> and whose cost type is
  \<^verbatim>\<open>Summary\<close>, the note is \<^verbatim>\<open>QUOTE NEEDED\<close>: it is the eighth and last field, and the
  row ends with it in quotes.
\<close>

theorem csv_notes_precedence:
  "status item = ''Unpriced'' \<and> costType item = ''Summary'' \<longrightarrow>
     csvFields item ! 7 = ''QUOTE NEEDED''
     \<and> length (csvFields item) = 8
     \<and> (\<exists>front. csvRow item = front @ '','' @ dquote @ ''QUOTE NEEDED'' @ dquote)"
  by (simp add: csvFields_def csvRow_def)

theorem csv_notes_precedence_witness:
  "csvFields (item_7_8\<lparr>costType := ''Summary''\<rparr>) ! 7 = ''QUOTE NEEDED''"
  using csv_notes_precedence [of "item_7_8\<lparr>costType := ''Summary''\<rparr>"]
  by (simp add: item_7_8_def)

section \<open>calculateMetrics: the dictionary and the callback\<close>

lemma map_of_put: "map_of (put c k v) = (map_of c)(k \<mapsto> v)"
  by (induction c k v rule: put.induct) (auto simp: fun_eq_iff)

lemma keys_put:
  "map fst (put c k v) = (if k \<in> fst ` set c then map fst c else map fst c @ [k])"
  by (induction c k v rule: put.induct) (auto simp: image_iff)

lemma keys_set_put: "fst ` set (put c k v) = insert k (fst ` set c)"
  by (induction c k v rule: put.induct) auto

lemma truthy_get_prop:
  "truthy (get_prop g c k) \<longleftrightarrow> k \<in> fst ` set c \<or> k \<in> set Object_prototype_names"
  by (auto simp: get_prop_def map_of_eq_None_iff split: option.splits dest: map_of_SomeD
      intro: rev_image_eqI)

lemma get_prop_put: "get_prop g (put c k v) k = Own v"
  by (simp add: get_prop_def map_of_put)

lemma get_prop_own:
  "k \<in> fst ` set c \<Longrightarrow> \<exists>b. map_of c k = Some b \<and> get_prop g c k = Own b"
  by (cases "map_of c k") (auto simp: get_prop_def map_of_eq_None_iff)

text \<open>
  The callback either finishes with the built-ins as they were, or throws. It finishes when
  the phase of the item has a bucket or is not an inherited name; the locals are then
  updated as the three steps say.
\<close>

lemma callback_returns:
  assumes "event item \<notin> set Object_prototype_names \<or> event item \<in> fst ` set (costsByType s)"
  shows "\<exists>s'. callback item g s = (Inr s', g)
     \<and> totalConfirmedBudget s' =
         totalConfirmedBudget s + (if counted item then number_of (cost item) else 0)
     \<and> unpricedItems s' = unpricedItems s @ (if status item = ''Unpriced'' then [item] else [])
     \<and> map fst (costsByType s') =
         (if event item \<in> fst ` set (costsByType s) then map fst (costsByType s)
          else map fst (costsByType s) @ [event item])"
proof (cases "event item \<in> fst ` set (costsByType s)")
  case True
  then obtain b where b: "get_prop g (costsByType s) (event item) = Own b"
    using get_prop_own by blast
  with True show ?thesis
    by (simp add: callback_def Let_def keys_put)
next
  case False
  with assms have nb: "event item \<notin> set Object_prototype_names" by simp
  from False nb have "\<not> truthy (get_prop g (costsByType s) (event item))"
    by (simp add: truthy_get_prop)
  with False show ?thesis
    by (simp add: callback_def Let_def get_prop_put keys_put keys_set_put)
qed

lemma callback_throws:
  assumes "event item \<in> set Object_prototype_names"
    and "event item \<notin> fst ` set (costsByType s)"
  shows "fst (callback item g s) = Inl TypeError"
proof -
  from assms have m: "map_of (costsByType s) (event item) = None"
    by (simp add: map_of_eq_None_iff)
  with assms(1) have "get_prop g (costsByType s) (event item) = Builtin (event item)"
    by (simp add: get_prop_def)
  then show ?thesis
    by (simp add: callback_def Let_def)
qed

lemma callback_cases:
  "(\<exists>s'. callback item g s = (Inr s', g)) \<or> fst (callback item g s) = Inl TypeError"
  using callback_returns [of item s g] callback_throws [of item s g] by blast

lemma callback_builtins:
  "callback item g s = (Inr s', g1) \<Longrightarrow> g1 = g"
  using callback_cases [of item g s] by auto

lemma get_prop_cases:
  "get_prop g c k = get_prop g' c k
   \<or> (get_prop g c k \<in> {Inherited_NaN, Undefined} \<and> get_prop g' c k \<in> {Inherited_NaN, Undefined})"
  by (auto simp: get_prop_def split: option.splits)

lemma callback_independent: "fst (callback item g s) = fst (callback item g' s)"
proof (cases "truthy (get_prop g (costsByType s) (event item))")
  case True
  then have t': "truthy (get_prop g' (costsByType s) (event item))"
    by (simp add: truthy_get_prop)
  from True t' have "get_prop g (costsByType s) (event item) = get_prop g' (costsByType s) (event item)"
    using get_prop_cases [of g "costsByType s" "event item" g'] by auto
  with True t' show ?thesis
    by (simp add: callback_def Let_def split: looked.splits)
next
  case False
  then have f': "\<not> truthy (get_prop g' (costsByType s) (event item))"
    by (simp add: truthy_get_prop)
  from False f' show ?thesis
    by (simp add: callback_def Let_def get_prop_put)
qed

lemma forEach_independent: "fst (forEach xs g s) = fst (forEach xs g' s)"
proof (induction xs arbitrary: g g' s)
  case Nil
  show ?case by simp
next
  case (Cons item rest)
  obtain r g1 where c1: "callback item g s = (r, g1)" by (cases "callback item g s")
  obtain r' g1' where c2: "callback item g' s = (r', g1')" by (cases "callback item g' s")
  from c1 c2 callback_independent [of item g s g'] have rr: "r' = r" by simp
  show ?case
  proof (cases r)
    case (Inl e)
    with c1 c2 rr show ?thesis by simp
  next
    case (Inr s')
    with c1 c2 rr Cons.IH [of g1 s' g1'] show ?thesis by simp
  qed
qed

lemma forEach_builtins: "forEach xs g s = (Inr s', g') \<Longrightarrow> g' = g"
proof (induction xs arbitrary: s)
  case Nil
  then show ?case by simp
next
  case (Cons item rest)
  obtain r g1 where c1: "callback item g s = (r, g1)" by (cases "callback item g s")
  show ?case
  proof (cases r)
    case (Inl e)
    with c1 Cons.prems show ?thesis by simp
  next
    case (Inr s1)
    with c1 have "g1 = g" using callback_builtins by blast
    with c1 Inr Cons.prems Cons.IH [of s1] show ?thesis by simp
  qed
qed

lemma forEach_error: "forEach xs g s = (Inl e, g') \<Longrightarrow> e = TypeError"
  by (cases e) simp

lemma forEach_returns:
  assumes "\<forall>i \<in> set xs. event i \<notin> set Object_prototype_names"
  shows "\<exists>s'. forEach xs g s = (Inr s', g)
     \<and> totalConfirmedBudget s' =
         totalConfirmedBudget s + sum_list (map (\<lambda>i. number_of (cost i)) (filter counted xs))
     \<and> unpricedItems s' = unpricedItems s @ filter (\<lambda>i. status i = ''Unpriced'') xs
     \<and> map fst (costsByType s') =
         map fst (costsByType s)
         @ filter (\<lambda>k. k \<notin> fst ` set (costsByType s)) (first_occurrences (map event xs))"
  using assms
proof (induction xs arbitrary: s)
  case Nil
  show ?case by simp
next
  case (Cons item rest)
  from Cons.prems have ev: "event item \<notin> set Object_prototype_names" by simp
  from Cons.prems have rest: "\<forall>i \<in> set rest. event i \<notin> set Object_prototype_names" by simp
  obtain s1 where s1: "callback item g s = (Inr s1, g)"
    and t1: "totalConfirmedBudget s1 =
         totalConfirmedBudget s + (if counted item then number_of (cost item) else 0)"
    and u1: "unpricedItems s1 = unpricedItems s @ (if status item = ''Unpriced'' then [item] else [])"
    and k1: "map fst (costsByType s1) =
         (if event item \<in> fst ` set (costsByType s) then map fst (costsByType s)
          else map fst (costsByType s) @ [event item])"
    using callback_returns [of item s g] ev by blast
  obtain s' where s': "forEach rest g s1 = (Inr s', g)"
    and t': "totalConfirmedBudget s' =
         totalConfirmedBudget s1 + sum_list (map (\<lambda>i. number_of (cost i)) (filter counted rest))"
    and u': "unpricedItems s' = unpricedItems s1 @ filter (\<lambda>i. status i = ''Unpriced'') rest"
    and k': "map fst (costsByType s') =
         map fst (costsByType s1)
         @ filter (\<lambda>k. k \<notin> fst ` set (costsByType s1)) (first_occurrences (map event rest))"
    using Cons.IH [OF rest, of s1] by blast
  have run: "forEach (item # rest) g s = (Inr s', g)" using s1 s' by simp
  have tot: "totalConfirmedBudget s' =
         totalConfirmedBudget s
         + sum_list (map (\<lambda>i. number_of (cost i)) (filter counted (item # rest)))"
    using t1 t' by simp
  have unp: "unpricedItems s' = unpricedItems s @ filter (\<lambda>i. status i = ''Unpriced'') (item # rest)"
    using u1 u' by simp
  have keys1: "fst ` set (costsByType s1) = insert (event item) (fst ` set (costsByType s))"
  proof -
    have "set (map fst (costsByType s1)) = insert (event item) (set (map fst (costsByType s)))"
      unfolding k1 by auto
    then show ?thesis by simp
  qed
  have keys: "map fst (costsByType s') =
         map fst (costsByType s)
         @ filter (\<lambda>k. k \<notin> fst ` set (costsByType s))
             (first_occurrences (map event (item # rest)))"
    unfolding k' keys1 k1
    by (auto simp: filter_filter conj_commute intro!: filter_cong)
  from run tot unp keys show ?case by blast
qed

lemma callback_keys:
  "callback item g s = (Inr s', g1) \<Longrightarrow>
     fst ` set (costsByType s') = insert (event item) (fst ` set (costsByType s))"
proof -
  assume a: "callback item g s = (Inr s', g1)"
  have c: "event item \<notin> set Object_prototype_names \<or> event item \<in> fst ` set (costsByType s)"
  proof (rule ccontr)
    assume "\<not> ?thesis"
    then have "fst (callback item g s) = Inl TypeError"
      using callback_throws [of item s g] by simp
    with a show False by simp
  qed
  from callback_returns [OF c, of g] a
  have "map fst (costsByType s') =
         (if event item \<in> fst ` set (costsByType s) then map fst (costsByType s)
          else map fst (costsByType s) @ [event item])" by auto
  then have "set (map fst (costsByType s')) = insert (event item) (set (map fst (costsByType s)))"
    by auto
  then show ?thesis by simp
qed

lemma forEach_throws:
  assumes "\<exists>i \<in> set xs. event i \<in> set Object_prototype_names"
    and "fst ` set (costsByType s) \<inter> set Object_prototype_names = {}"
  shows "fst (forEach xs g s) = Inl TypeError"
  using assms
proof (induction xs arbitrary: s g)
  case Nil
  then show ?case by simp
next
  case (Cons item rest)
  show ?case
  proof (cases "event item \<in> set Object_prototype_names")
    case True
    with Cons.prems(2) have "event item \<notin> fst ` set (costsByType s)" by auto
    with True have "fst (callback item g s) = Inl TypeError" by (rule callback_throws)
    then show ?thesis by (cases "callback item g s") simp
  next
    case False
    with Cons.prems(1) have later: "\<exists>i \<in> set rest. event i \<in> set Object_prototype_names" by simp
    obtain s1 where s1: "callback item g s = (Inr s1, g)"
      using callback_returns [of item s g] False by blast
    from callback_keys [OF s1] False Cons.prems(2)
    have "fst ` set (costsByType s1) \<inter> set Object_prototype_names = {}" by auto
    with later have "fst (forEach rest g s1) = Inl TypeError" by (rule Cons.IH)
    with s1 show ?thesis by simp
  qed
qed

lemma calculateMetrics_returns:
  assumes "\<forall>i \<in> set xs. event i \<notin> set Object_prototype_names"
  shows "\<exists>r c. calculateMetrics xs g = (Inr r, g)
     \<and> totalConfirmedBudget r = sum_list (map (\<lambda>i. number_of (cost i)) (filter counted xs))
     \<and> unpricedItems r = filter (\<lambda>i. status i = ''Unpriced'') xs
     \<and> top3CostGroupings r = map (\<lambda>(p, d). \<lparr>total' = total' d, phase = p\<rparr>) (sortedCosts c)
     \<and> map fst c = first_occurrences (map event xs)"
proof -
  let ?s0 = "\<lparr>totalConfirmedBudget = 0, unpricedItems = [], costsByType = []\<rparr>"
  obtain s' where run: "forEach xs g ?s0 = (Inr s', g)"
    and t: "totalConfirmedBudget s' =
         totalConfirmedBudget ?s0 + sum_list (map (\<lambda>i. number_of (cost i)) (filter counted xs))"
    and u: "unpricedItems s' = unpricedItems ?s0 @ filter (\<lambda>i. status i = ''Unpriced'') xs"
    and k: "map fst (costsByType s') =
         map fst (costsByType ?s0)
         @ filter (\<lambda>k. k \<notin> fst ` set (costsByType ?s0)) (first_occurrences (map event xs))"
    using forEach_returns [OF assms, of g ?s0] by blast
  from k have k': "map fst (costsByType s') = first_occurrences (map event xs)" by simp
  have "calculateMetrics xs g =
      (Inr \<lparr>totalConfirmedBudget = totalConfirmedBudget s', unpricedItems = unpricedItems s',
            top3CostGroupings =
              map (\<lambda>(p, d). \<lparr>total' = total' d, phase = p\<rparr>) (sortedCosts (costsByType s'))\<rparr>,
       g)"
    using run by (simp add: calculateMetrics_def)
  with t u k' show ?thesis by fastforce
qed

lemma calculateMetrics_throws:
  assumes "\<exists>i \<in> set xs. event i \<in> set Object_prototype_names"
  shows "fst (calculateMetrics xs g) = Inl TypeError"
proof -
  let ?s0 = "\<lparr>totalConfirmedBudget = 0, unpricedItems = [], costsByType = []\<rparr>"
  have "fst (forEach xs g ?s0) = Inl TypeError"
    using assms by (intro forEach_throws) simp_all
  then show ?thesis
    by (cases "forEach xs g ?s0") (simp add: calculateMetrics_def)
qed

lemma calculateMetrics_independent:
  "fst (calculateMetrics xs g) = fst (calculateMetrics xs g')"
proof -
  let ?s0 = "\<lparr>totalConfirmedBudget = 0, unpricedItems = [], costsByType = []\<rparr>"
  have "fst (forEach xs g ?s0) = fst (forEach xs g' ?s0)" by (rule forEach_independent)
  then show ?thesis
    by (cases "forEach xs g ?s0"; cases "forEach xs g' ?s0")
      (auto simp: calculateMetrics_def split: sum.splits)
qed

lemma calculateMetrics_builtins:
  assumes "fst (calculateMetrics xs g) = Inr r"
  shows "snd (calculateMetrics xs g) = g"
proof -
  let ?s0 = "\<lparr>totalConfirmedBudget = 0, unpricedItems = [], costsByType = []\<rparr>"
  obtain q g1 where run: "forEach xs g ?s0 = (q, g1)" by (cases "forEach xs g ?s0")
  show ?thesis
  proof (cases q)
    case (Inl e)
    with run assms show ?thesis by (simp add: calculateMetrics_def)
  next
    case (Inr s')
    with run have "g1 = g" using forEach_builtins by blast
    with run Inr show ?thesis by (simp add: calculateMetrics_def)
  qed
qed

section \<open>calculateMetrics: sorting and key order\<close>

lemma insert_by_insort_key:
  "insert_by (\<lambda>(ka, a) (kb, b). total' b - total' a) x ys
   = insort_key (\<lambda>(k, b). - total' b) x ys"
  by (induction ys) (auto simp: case_prod_beta)

lemma Array_sort_sort_key:
  "Array_sort (\<lambda>(ka, a) (kb, b). total' b - total' a) xs = sort_key (\<lambda>(k, b). - total' b) xs"
  by (induction xs) (simp_all add: Array_sort_def insert_by_insort_key)

lemma sortedCosts_props:
  "length (sortedCosts c) \<le> 3"
  "\<forall>x \<in> set (sortedCosts c). \<not> includes_str (fst x) ''Summary''
       \<and> \<not> includes_str (fst x) ''Budget'' \<and> 0 < total' (snd x)"
  "sorted_wrt (\<lambda>x y. total' (snd y) \<le> total' (snd x)) (sortedCosts c)"
proof -
  show "length (sortedCosts c) \<le> 3" by (simp add: sortedCosts_def)
  show "\<forall>x \<in> set (sortedCosts c). \<not> includes_str (fst x) ''Summary''
       \<and> \<not> includes_str (fst x) ''Budget'' \<and> 0 < total' (snd x)"
    unfolding sortedCosts_def Array_sort_sort_key
    by (auto dest!: in_set_takeD)
  have "sorted (map (\<lambda>(k, b). - total' b)
          (sort_key (\<lambda>(k, b). - total' b)
             (filter (\<lambda>(key, val). \<not> includes_str key ''Summary'' \<and> \<not> includes_str key ''Budget''
                                  \<and> total' val > 0) (Object_entries c))))"
    by (rule sorted_sort_key)
  then have "sorted (map (\<lambda>(k, b). - total' b) (sortedCosts c))"
    unfolding sortedCosts_def Array_sort_sort_key
    by (simp add: sorted_wrt_take flip: take_map)
  then show "sorted_wrt (\<lambda>x y. total' (snd y) \<le> total' (snd x)) (sortedCosts c)"
    by (simp add: sorted_map case_prod_beta)
qed

lemma set_first_occurrences: "set (first_occurrences xs) = set xs"
  by (induction xs) auto

lemma distinct_first_occurrences: "distinct (first_occurrences xs)"
  by (induction xs) (auto simp: set_first_occurrences)

lemma set_OwnPropertyKeys: "set (OwnPropertyKeys ks) = set ks"
  by (auto simp: OwnPropertyKeys_def)

lemma distinct_OwnPropertyKeys: "distinct ks \<Longrightarrow> distinct (OwnPropertyKeys ks)"
  by (auto simp: OwnPropertyKeys_def)

lemma OwnPropertyKeys_others:
  "filter (\<lambda>k. \<not> is_array_index k) (OwnPropertyKeys ks) = filter (\<lambda>k. \<not> is_array_index k) ks"
proof -
  have "filter (\<lambda>k. \<not> is_array_index k) (sort_key decimal (filter is_array_index ks)) = []"
    by (auto simp: filter_empty_conv)
  then show ?thesis by (simp add: OwnPropertyKeys_def)
qed

lemma entries_keys: "map fst (Object_entries c) = OwnPropertyKeys (map fst c)"
proof -
  have "map fst (List.map_filter (\<lambda>k. map_option (Pair k) (map_of c k)) ks) = ks"
    if "set ks \<subseteq> fst ` set c" for ks
    using that
  proof (induction ks)
    case Nil
    show ?case by (simp add: List.map_filter_simps)
  next
    case (Cons k ks)
    then obtain b where "map_of c k = Some b"
      by (cases "map_of c k") (auto simp: map_of_eq_None_iff)
    with Cons show ?case by (simp add: List.map_filter_simps)
  qed
  moreover have "set (OwnPropertyKeys (map fst c)) \<subseteq> fst ` set c"
    by (simp add: set_OwnPropertyKeys)
  ultimately show ?thesis by (simp add: Object_entries_def)
qed

lemma nth_subseq: "i < j \<Longrightarrow> j < length xs \<Longrightarrow> subseq [xs ! i, xs ! j] xs"
proof (induction xs arbitrary: i j)
  case Nil
  then show ?case by simp
next
  case (Cons x xs)
  show ?case
  proof (cases i)
    case 0
    with Cons.prems obtain j' where j: "j = Suc j'" "j' < length xs" by (cases j) auto
    then have "xs ! j' \<in> set xs" by simp
    then have "subseq [xs ! j'] xs" by (simp add: subseq_singleton_left)
    with 0 j show ?thesis by simp
  next
    case (Suc i')
    with Cons.prems obtain j' where j: "j = Suc j'" "i' < j'" "j' < length xs" by (cases j) auto
    then have "subseq [xs ! i', xs ! j'] xs" using Cons.IH by blast
    with Suc j show ?thesis by (simp add: subseq_Cons')
  qed
qed

lemma sortedCosts_ties:
  assumes "i < j" and "j < length (sortedCosts c)"
    and "total' (snd (sortedCosts c ! i)) = total' (snd (sortedCosts c ! j))"
  shows "subseq [fst (sortedCosts c ! i), fst (sortedCosts c ! j)] (OwnPropertyKeys (map fst c))"
proof -
  let ?f = "\<lambda>(k, b). - total' b"
  let ?P = "\<lambda>(key, val). \<not> includes_str key ''Summary'' \<and> \<not> includes_str key ''Budget''
                                  \<and> total' val > 0"
  let ?F = "filter ?P (Object_entries c)"
  let ?S = "sort_key ?f ?F"
  let ?x = "sortedCosts c ! i" and ?y = "sortedCosts c ! j"
  let ?Q = "\<lambda>z. ?f z = ?f ?x"
  have sc: "sortedCosts c = take 3 ?S"
    by (simp add: sortedCosts_def Array_sort_sort_key)
  have "subseq [?x, ?y] (sortedCosts c)" using assms(1,2) by (rule nth_subseq)
  moreover have "subseq (sortedCosts c) ?S" unfolding sc
    by (intro prefix_imp_subseq take_is_prefix)
  ultimately have "subseq [?x, ?y] ?S" by (rule subseq_order.trans)
  then have "subseq (filter ?Q [?x, ?y]) (filter ?Q ?S)" by (rule subseq_filter)
  moreover have "filter ?Q [?x, ?y] = [?x, ?y]"
    using assms(3) by (simp add: case_prod_beta)
  moreover have "filter ?Q ?S = filter ?Q ?F" by (rule sort_key_stable)
  ultimately have "subseq [?x, ?y] (filter ?Q ?F)" by simp
  moreover have "subseq (filter ?Q ?F) (Object_entries c)"
    by (rule subseq_order.trans [OF subseq_filter_left subseq_filter_left])
  ultimately have "subseq [?x, ?y] (Object_entries c)" by (rule subseq_order.trans)
  then have "subseq (map fst [?x, ?y]) (map fst (Object_entries c))" by (rule subseq_map)
  then show ?thesis by (simp add: entries_keys)
qed

lemma calculateMetrics_returns_iff:
  "(\<exists>r. calculateMetrics xs g = (Inr r, g))
   \<longleftrightarrow> (\<forall>it \<in> set xs. event it \<notin> set Object_prototype_names)"
proof
  assume "\<exists>r. calculateMetrics xs g = (Inr r, g)"
  then obtain r where r: "calculateMetrics xs g = (Inr r, g)" ..
  show "\<forall>it \<in> set xs. event it \<notin> set Object_prototype_names"
  proof (rule ccontr)
    assume "\<not> ?thesis"
    then have "fst (calculateMetrics xs g) = Inl TypeError"
      using calculateMetrics_throws [of xs g] by blast
    with r show False by simp
  qed
next
  assume "\<forall>it \<in> set xs. event it \<notin> set Object_prototype_names"
  then show "\<exists>r. calculateMetrics xs g = (Inr r, g)"
    using calculateMetrics_returns [of xs g] by blast
qed

section \<open>calculateMetrics: inherited names\<close>

text \<open>
  \<^verbatim>\<open>calculateMetrics\<close> returns exactly when no item has an inherited name as its event
  (\<open>calculateMetrics_returns_iff\<close>). On such a list the total is the sum of the counted
  costs and the unpriced items are the items with status \<^verbatim>\<open>Unpriced\<close> in order
  (\<open>calculateMetrics_returns\<close>). The two claims below say so of every list, and the code
  does not return on the lists shown.

  Claim C1 says that for every list \<^verbatim>\<open>calculateMetrics\<close> returns a total equal to the sum of
  the numeric costs that are not excluded. On the list of one item with event
  \<^verbatim>\<open>constructor\<close> and cost 500 the lookup \<^verbatim>\<open>costsByType['constructor']\<close> finds the
  inherited \<^verbatim>\<open>Object\<close> function, no bucket is made, \<^verbatim>\<open>Object.total\<close> becomes NaN and
  \<^verbatim>\<open>Object.items.push\<close> throws: there is no total.
\<close>

theorem calculateMetrics_constructor_throws:
  "calculateMetrics [line_item ''constructor'' (JNum 500) False ''Priced''] {}
     = (Inl TypeError, {''constructor''})"
  by (simp add: calculateMetrics_def callback_def line_item_def counted_def get_prop_def
      Object_prototype_names_def)

text \<open>
  Claim C2 says that for every list the unpriced items of the result are the items with
  status \<^verbatim>\<open>Unpriced\<close>. On the list of one unpriced item with event \<^verbatim>\<open>toString\<close> the call
  throws in the same way, with nothing written since the cost is not a number.
\<close>
theorem calculateMetrics_toString_throws:
  "calculateMetrics [item_7_8\<lparr>event := ''toString''\<rparr>] {} = (Inl TypeError, {})"
  by (simp add: calculateMetrics_def callback_def item_7_8_def counted_def get_prop_def
      Object_prototype_names_def)

section \<open>calculateMetrics: the groupings\<close>

text \<open>
  Claim C3. Whatever the list and the state of the built-ins, the groupings of a result that
  \<^verbatim>\<open>calculateMetrics\<close> returns have no phase that contains \<^verbatim>\<open>Summary\<close> or \<^verbatim>\<open>Budget\<close>,
  have only totals above 0, are at most three, and stand in descending order of total.
\<close>

theorem top3CostGroupings_properties:
  assumes "fst (calculateMetrics xs g) = Inr r"
  shows "(\<forall>e \<in> set (top3CostGroupings r).
            \<not> includes_str (phase e) ''Summary'' \<and> \<not> includes_str (phase e) ''Budget''
            \<and> 0 < total' e)
     \<and> length (top3CostGroupings r) \<le> 3
     \<and> sorted_wrt (\<lambda>a b. total' b \<le> total' a) (top3CostGroupings r)"
proof -
  let ?s0 = "\<lparr>totalConfirmedBudget = 0, unpricedItems = [], costsByType = []\<rparr>"
  let ?h = "\<lambda>(p, d). \<lparr>total' = total' d, phase = p\<rparr>"
  obtain q g1 where run: "forEach xs g ?s0 = (q, g1)" by (cases "forEach xs g ?s0")
  with assms obtain s where "q = Inr s"
    by (cases q) (simp_all add: calculateMetrics_def)
  with run assms have top: "top3CostGroupings r = map ?h (sortedCosts (costsByType s))"
    by (auto simp: calculateMetrics_def)
  have a: "\<forall>e \<in> set (top3CostGroupings r).
            \<not> includes_str (phase e) ''Summary'' \<and> \<not> includes_str (phase e) ''Budget''
            \<and> 0 < total' e"
    using sortedCosts_props(2) [of "costsByType s"] by (auto simp: top)
  have b: "length (top3CostGroupings r) \<le> 3"
    using sortedCosts_props(1) [of "costsByType s"] by (simp add: top)
  have c: "sorted_wrt (\<lambda>a b. total' b \<le> total' a) (top3CostGroupings r)"
    using sortedCosts_props(3) [of "costsByType s"]
    by (simp add: top sorted_wrt_map case_prod_beta)
  from a b c show ?thesis by blast
qed

lemma not_index_letters:
  "\<not> is_array_index ''A''" "\<not> is_array_index ''B''" "\<not> is_array_index ''C''"
  "\<not> is_array_index ''D''" "\<not> is_array_index ''Budget X''" "\<not> is_array_index ''Summary Y''"
  by (simp_all add: is_array_index_def is_digit_def)

lemma six_phases_run:
  "fst (calculateMetrics
     [line_item ''B'' (JNum 5) False ''Priced'',
      line_item ''A'' (JNum 7) False ''Priced'',
      line_item ''Budget X'' (JNum 100) False ''Priced'',
      line_item ''C'' (JNum 5) False ''Priced'',
      line_item ''D'' (JNum 3) False ''Priced'',
      line_item ''Summary Y'' (JNum 50) False ''Priced''] {})
   = Inr \<lparr>totalConfirmedBudget = 170, unpricedItems = [],
          top3CostGroupings = [\<lparr>total' = 7, phase = ''A''\<rparr>, \<lparr>total' = 5, phase = ''B''\<rparr>,
                               \<lparr>total' = 5, phase = ''C''\<rparr>]\<rparr>"
  by (simp add: calculateMetrics_def callback_def line_item_def counted_def get_prop_def
      Object_prototype_names_def sortedCosts_def Object_entries_def OwnPropertyKeys_def
      not_index_letters Array_sort_def List.map_filter_def Let_def)

theorem top3CostGroupings_properties_witness:
  "fst (calculateMetrics
     [line_item ''B'' (JNum 5) False ''Priced'',
      line_item ''A'' (JNum 7) False ''Priced'',
      line_item ''Budget X'' (JNum 100) False ''Priced'',
      line_item ''C'' (JNum 5) False ''Priced'',
      line_item ''D'' (JNum 3) False ''Priced'',
      line_item ''Summary Y'' (JNum 50) False ''Priced''] {})
   = Inr \<lparr>totalConfirmedBudget = 170, unpricedItems = [],
          top3CostGroupings = [\<lparr>total' = 7, phase = ''A''\<rparr>, \<lparr>total' = 5, phase = ''B''\<rparr>,
                               \<lparr>total' = 5, phase = ''C''\<rparr>]\<rparr>
   \<and> length [\<lparr>total' = 7, phase = ''A''\<rparr>, \<lparr>total' = 5, phase = ''B''\<rparr>,
              \<lparr>total' = 5, phase = ''C''\<rparr>] \<le> 3
   \<and> sorted_wrt (\<lambda>a b. total' b \<le> total' a)
        [\<lparr>total' = 7, phase = ''A''\<rparr>, \<lparr>total' = 5, phase = ''B''\<rparr>, \<lparr>total' = 5, phase = ''C''\<rparr>]
   \<and> \<not> includes_str ''A'' ''Summary'' \<and> \<not> includes_str ''A'' ''Budget''"
  using top3CostGroupings_properties [OF six_phases_run] six_phases_run by simp

section \<open>calculateMetrics: the order of equal totals\<close>

text \<open>
  Claim C4, as the code has it. On a list in which no event is an inherited name,
  \<^verbatim>\<open>calculateMetrics\<close> returns, and two groupings with equal totals stand in the order in
  which \<^verbatim>\<open>Object.entries\<close> lists their phases: the phases that are array indices first, in
  ascending numeric order, then the other phases in the order of their first occurrence in
  the input. That order has no repetitions. So two tied phases of which neither is an array
  index stand in the order of their first occurrence.
\<close>
theorem top3_tie_order:
  assumes "\<forall>it \<in> set xs. event it \<notin> set Object_prototype_names"
  shows "\<exists>r. calculateMetrics xs g = (Inr r, g)
     \<and> distinct (OwnPropertyKeys (first_occurrences (map event xs)))
     \<and> (\<forall>i j. i < j \<and> j < length (top3CostGroupings r)
            \<and> total' (top3CostGroupings r ! i) = total' (top3CostGroupings r ! j) \<longrightarrow>
          subseq [phase (top3CostGroupings r ! i), phase (top3CostGroupings r ! j)]
            (OwnPropertyKeys (first_occurrences (map event xs)))
          \<and> (\<not> is_array_index (phase (top3CostGroupings r ! i))
               \<and> \<not> is_array_index (phase (top3CostGroupings r ! j)) \<longrightarrow>
             subseq [phase (top3CostGroupings r ! i), phase (top3CostGroupings r ! j)]
               (first_occurrences (map event xs))))"
proof -
  let ?ks = "first_occurrences (map event xs)"
  obtain r c where run: "calculateMetrics xs g = (Inr r, g)"
    and top: "top3CostGroupings r = map (\<lambda>(p, d). \<lparr>total' = total' d, phase = p\<rparr>) (sortedCosts c)"
    and keys: "map fst c = ?ks"
    using calculateMetrics_returns [OF assms, of g] by blast
  have d: "distinct (OwnPropertyKeys ?ks)"
    by (simp add: distinct_OwnPropertyKeys distinct_first_occurrences)
  have ties: "subseq [phase (top3CostGroupings r ! i), phase (top3CostGroupings r ! j)]
            (OwnPropertyKeys ?ks)
          \<and> (\<not> is_array_index (phase (top3CostGroupings r ! i))
               \<and> \<not> is_array_index (phase (top3CostGroupings r ! j)) \<longrightarrow>
             subseq [phase (top3CostGroupings r ! i), phase (top3CostGroupings r ! j)] ?ks)"
    if ij: "i < j" "j < length (top3CostGroupings r)"
      and eq: "total' (top3CostGroupings r ! i) = total' (top3CostGroupings r ! j)" for i j
  proof -
    from ij top have lj: "j < length (sortedCosts c)" and li: "i < length (sortedCosts c)" by simp_all
    have pi: "phase (top3CostGroupings r ! i) = fst (sortedCosts c ! i)"
      and ti: "total' (top3CostGroupings r ! i) = total' (snd (sortedCosts c ! i))"
      using li by (simp_all add: top case_prod_beta)
    have pj: "phase (top3CostGroupings r ! j) = fst (sortedCosts c ! j)"
      and tj: "total' (top3CostGroupings r ! j) = total' (snd (sortedCosts c ! j))"
      using lj by (simp_all add: top case_prod_beta)
    from eq ti tj have "total' (snd (sortedCosts c ! i)) = total' (snd (sortedCosts c ! j))" by simp
    with ij(1) lj
    have s: "subseq [fst (sortedCosts c ! i), fst (sortedCosts c ! j)] (OwnPropertyKeys ?ks)"
      using sortedCosts_ties [of i j c] keys by simp
    have "subseq [fst (sortedCosts c ! i), fst (sortedCosts c ! j)] ?ks"
      if n: "\<not> is_array_index (fst (sortedCosts c ! i))" "\<not> is_array_index (fst (sortedCosts c ! j))"
    proof -
      from s have "subseq (filter (\<lambda>k. \<not> is_array_index k) [fst (sortedCosts c ! i), fst (sortedCosts c ! j)])
          (filter (\<lambda>k. \<not> is_array_index k) (OwnPropertyKeys ?ks))"
        by (rule subseq_filter)
      with n have "subseq [fst (sortedCosts c ! i), fst (sortedCosts c ! j)]
          (filter (\<lambda>k. \<not> is_array_index k) ?ks)"
        by (simp add: OwnPropertyKeys_others)
      then show ?thesis by (rule subseq_order.trans [OF _ subseq_filter_left])
    qed
    with s show ?thesis by (simp add: pi pj)
  qed
  from run d ties show ?thesis by blast
qed

text \<open>
  The claim as written has the order of first occurrence for all phases. With the phases
  \<^verbatim>\<open>'2'\<close> and then \<^verbatim>\<open>'1'\<close>, both of total 5, the groupings come out as \<^verbatim>\<open>'1'\<close> and then
  \<^verbatim>\<open>'2'\<close>.
\<close>
lemma is_array_index_1: "is_array_index ''1''"
  by (simp add: is_array_index_def is_digit_def decimal_def digits.simps)
lemma is_array_index_2: "is_array_index ''2''"
  by (simp add: is_array_index_def is_digit_def decimal_def digits.simps)

theorem top3_tie_order_counterexample:
  "fst (calculateMetrics [line_item ''2'' (JNum 5) False ''Priced'',
                          line_item ''1'' (JNum 5) False ''Priced''] {})
     = Inr \<lparr>totalConfirmedBudget = 10, unpricedItems = [],
            top3CostGroupings = [\<lparr>total' = 5, phase = ''1''\<rparr>, \<lparr>total' = 5, phase = ''2''\<rparr>]\<rparr>
   \<and> first_occurrences (map event [line_item ''2'' (JNum 5) False ''Priced'',
                                       line_item ''1'' (JNum 5) False ''Priced''])
       = [''2'', ''1'']"
  by (simp add: calculateMetrics_def callback_def line_item_def counted_def get_prop_def
      Object_prototype_names_def sortedCosts_def Object_entries_def OwnPropertyKeys_def
      is_array_index_1 is_array_index_2 decimal_def Array_sort_def List.map_filter_def Let_def)

lemma not_index_A: "\<not> is_array_index ''A''"
  by (simp add: is_array_index_def is_digit_def)

lemma not_index_B: "\<not> is_array_index ''B''"
  by (simp add: is_array_index_def is_digit_def)

lemma tie_run:
  "calculateMetrics [line_item ''B'' (JNum 5) False ''Priced'',
                     line_item ''A'' (JNum 5) False ''Priced''] {}
     = (Inr \<lparr>totalConfirmedBudget = 10, unpricedItems = [],
             top3CostGroupings = [\<lparr>total' = 5, phase = ''B''\<rparr>, \<lparr>total' = 5, phase = ''A''\<rparr>]\<rparr>, {})"
  by (simp add: calculateMetrics_def callback_def line_item_def counted_def get_prop_def
      Object_prototype_names_def sortedCosts_def Object_entries_def OwnPropertyKeys_def
      not_index_A not_index_B Array_sort_def List.map_filter_def Let_def)

theorem top3_tie_order_witness:
  "event (line_item ''B'' (JNum 5) False ''Priced'') \<notin> set Object_prototype_names
   \<and> event (line_item ''A'' (JNum 5) False ''Priced'') \<notin> set Object_prototype_names
   \<and> subseq [''B'', ''A'']
        (first_occurrences (map event [line_item ''B'' (JNum 5) False ''Priced'',
                                       line_item ''A'' (JNum 5) False ''Priced'']))"
proof -
  let ?xs = "[line_item ''B'' (JNum 5) False ''Priced'', line_item ''A'' (JNum 5) False ''Priced'']"
  let ?r = "\<lparr>totalConfirmedBudget = 10, unpricedItems = [],
             top3CostGroupings = [\<lparr>total' = 5, phase = ''B''\<rparr>, \<lparr>total' = 5, phase = ''A''\<rparr>]\<rparr>"
  have h: "\<forall>it \<in> set ?xs. event it \<notin> set Object_prototype_names"
    by (simp add: line_item_def Object_prototype_names_def)
  from top3_tie_order [OF h, of "{}"] obtain r where
    run: "calculateMetrics ?xs {} = (Inr r, {})"
    and ties: "\<forall>i j. i < j \<and> j < length (top3CostGroupings r)
            \<and> total' (top3CostGroupings r ! i) = total' (top3CostGroupings r ! j) \<longrightarrow>
          subseq [phase (top3CostGroupings r ! i), phase (top3CostGroupings r ! j)]
            (OwnPropertyKeys (first_occurrences (map event ?xs)))
          \<and> (\<not> is_array_index (phase (top3CostGroupings r ! i))
               \<and> \<not> is_array_index (phase (top3CostGroupings r ! j)) \<longrightarrow>
             subseq [phase (top3CostGroupings r ! i), phase (top3CostGroupings r ! j)]
               (first_occurrences (map event ?xs)))"
    by blast
  from run tie_run have r: "r = ?r" by simp
  from ties [rule_format, of 0 1] have
    "subseq [''B'', ''A''] (first_occurrences (map event ?xs))"
    unfolding r by (simp add: not_index_A not_index_B line_item_def)
  with h show ?thesis by simp
qed

section \<open>calculateMetrics: dependence on state\<close>

text \<open>
  Claim C5 says that \<^verbatim>\<open>calculateMetrics\<close> is pure: no side effect and no hidden state
  that a call changes. On the list of one item with event \<^verbatim>\<open>__proto__\<close> and cost 500 the
  lookup \<^verbatim>\<open>costsByType['__proto__']\<close> finds \<^verbatim>\<open>Object.prototype\<close>, the statement
  \<^verbatim>\<open>costsByType[phase].total += item.cost\<close> sets \<^verbatim>\<open>Object.prototype.total\<close> to NaN, and
  then the call throws. The built-ins are not as they were before the call: every object of
  the program now inherits a property \<^verbatim>\<open>total\<close>.
\<close>

theorem calculateMetrics_proto_written:
  "calculateMetrics [line_item ''__proto__'' (JNum 500) False ''Priced''] {}
     = (Inl TypeError, {''__proto__''})"
  by (simp add: calculateMetrics_def callback_def line_item_def counted_def get_prop_def
      Object_prototype_names_def)

text \<open>
  What holds of every call: the callback reads the fields of an item and puts the item
  itself into \<^verbatim>\<open>unpricedItems\<close> and into a bucket, and what it can write to are its own
  locals and the built-ins. The outcome of a call (the returned object, or the error) is the
  same whatever the state of the built-ins; so a second call on the same list, in the state
  the first call left, has the same outcome as the first; and a call that returns leaves the
  built-ins as they were.
\<close>

lemma calculateMetrics_outcome:
  "fst (calculateMetrics xs g) = fst (calculateMetrics xs g')
   \<and> fst (calculateMetrics xs (snd (calculateMetrics xs g))) = fst (calculateMetrics xs g)
   \<and> (\<forall>r. fst (calculateMetrics xs g) = Inr r \<longrightarrow> snd (calculateMetrics xs g) = g)"
  using calculateMetrics_independent calculateMetrics_builtins by blast

lemma not_index_JAVINEER: "\<not> is_array_index ''JAVINEER Setup''"
  by (simp add: is_array_index_def is_digit_def)

lemma not_index_Py: "\<not> is_array_index ''Py-Kathon Tech''"
  by (simp add: is_array_index_def is_digit_def)

lemma initialData_run:
  "calculateMetrics [item_1_1, item_7_8] {}
     = (Inr \<lparr>totalConfirmedBudget = 8000, unpricedItems = [item_7_8],
             top3CostGroupings = [\<lparr>total' = 8000, phase = ''JAVINEER Setup''\<rparr>]\<rparr>, {})"
  by (simp add: calculateMetrics_def callback_def item_1_1_def item_7_8_def counted_def
      get_prop_def Object_prototype_names_def sortedCosts_def Object_entries_def
      OwnPropertyKeys_def not_index_JAVINEER not_index_Py Array_sort_def List.map_filter_def
      Let_def)

section \<open>The scenario of the specification\<close>

lemma spec_scenario:
  "calculateMetrics
     [line_item ''A'' (JNum 500) False ''Priced'',
      line_item ''A'' (JNum 300) False ''Unpriced'',
      line_item ''Budget Summary'' (JNum 10000) True ''Priced''] {}
   = (Inr \<lparr>totalConfirmedBudget = 800,
           unpricedItems = [line_item ''A'' (JNum 300) False ''Unpriced''],
           top3CostGroupings = [\<lparr>total' = 800, phase = ''A''\<rparr>]\<rparr>, {})"
proof -
  have n: "\<not> is_array_index ''Budget Summary''"
    by (simp add: is_array_index_def is_digit_def)
  show ?thesis
    by (simp add: calculateMetrics_def callback_def line_item_def counted_def get_prop_def
      Object_prototype_names_def sortedCosts_def Object_entries_def OwnPropertyKeys_def
      not_index_A n Array_sort_def List.map_filter_def Let_def)
qed

end
